theory Spec2Isabelle
  imports Main "HOL-Library.Word"
begin

section \<open>The D3D11 shader program of CaveGame\<close>

text \<open>
  A shallow embedding of \<^verbatim>\<open>Engine/Source/Renderer/Platform/D3D11/D3D11Shader.cpp\<close>:
  the constructor that builds one module per shader stage, the lookup, the destructor,
  the wrapper around the native compiler and the stage creation routine.

  The native graphics backend (the offline compiler \<^verbatim>\<open>D3DCompile\<close> and the two
  creation calls of the device) is outside the repository; it is a parameter of the
  model. A fatal contract failure (\<^verbatim>\<open>CAVE_ASSERT\<close>, \<^verbatim>\<open>CAVE_VERIFY\<close>) is the \<open>Inl\<close>
  branch of a sum type.
\<close>

subsection \<open>Data\<close>

text \<open>
  \<^verbatim>\<open>enum class ShaderStage\<close> and \<^verbatim>\<open>enum class ShaderSourceType\<close> are declared in a
  header that is not part of the sources at hand; the file names the enumerators
  \<^verbatim>\<open>Vertex\<close>, \<^verbatim>\<open>Fragment\<close> and \<^verbatim>\<open>SourceCode\<close>, \<^verbatim>\<open>Bytecode\<close>. A value of a C++ enumeration
  need not be one of its named enumerators, and the code has branches for that case, so
  each datatype has one more constructor carrying the raw value.
\<close>

datatype ShaderStage = Vertex | Fragment | StageOther nat

datatype ShaderSourceType = SourceCode | Bytecode | SourceOther nat

type_synonym byte = "8 word"

text \<open>
  \<^verbatim>\<open>HRESULT\<close> is a signed 32-bit status; \<^verbatim>\<open>SUCCEEDED(hr)\<close> is \<^verbatim>\<open>hr >= 0\<close> on the signed
  reading. \<^verbatim>\<open>S_OK\<close> is 0 and \<^verbatim>\<open>E_FAIL\<close> is \<^verbatim>\<open>0x80004005\<close>.
\<close>

type_synonym HRESULT = "32 word"

definition SUCCEEDED :: "HRESULT \<Rightarrow> bool" where
  "SUCCEEDED hr \<longleftrightarrow> 0 \<le> sint hr"

definition S_OK :: HRESULT where
  "S_OK = 0"

definition E_FAIL :: HRESULT where
  "E_FAIL = 0x80004005"

text \<open>A native object pointer (\<^verbatim>\<open>IUnknown*\<close>) is an address; \<^verbatim>\<open>nullptr\<close> is address 0.\<close>

type_synonym IUnknown_ptr = nat

abbreviation nullptr :: IUnknown_ptr where
  "nullptr \<equiv> 0"

text \<open>
  Modelled from the spec: the macros \<^verbatim>\<open>CAVE_ASSERT\<close> and \<^verbatim>\<open>CAVE_VERIFY\<close> are defined
  outside the sources at hand; the specification calls a failed one a fatal contract
  violation that terminates construction, so a failed check ends the computation with
  the corresponding value of the type of fatal outcomes. \<open>ReleasedBlobAccess\<close> is the
  outcome of reading the buffer of a native blob after its release.
\<close>

datatype fatal = AssertFailed | VerifyFailed | ReleasedBlobAccess

record ShaderStageDescription =
  stage :: ShaderStage
  source_type :: ShaderSourceType
  source_code :: string
  source_bytecode_data :: "byte list"
  source_bytecode_size :: nat

record ShaderDescription =
  stages :: "ShaderStageDescription list"

text \<open>
  The field \<^verbatim>\<open>stage\<close> of \<^verbatim>\<open>ShaderModule\<close> is named \<open>module_stage\<close> here, apart from the
  field of the same name in the stage description.
\<close>

record ShaderModule =
  module_stage :: ShaderStage
  handle :: IUnknown_ptr

record ShaderCompilationResult =
  result :: HRESULT
  bytecode :: "byte list"
  error_message :: string

record D3D11Shader =
  m_shader_modules :: "ShaderModule list"

subsection \<open>The native backend\<close>

text \<open>
  What \<^verbatim>\<open>D3DCompile\<close> hands back: the status and the two out-parameters, each either
  \<^verbatim>\<open>nullptr\<close> (\<open>None\<close>) or a blob with the given bytes.
\<close>

record D3DCompile_output =
  hresult :: HRESULT
  ppCode :: "byte list option"
  ppErrorMsgs :: "byte list option"

text \<open>
  The backend: the compiler as a function of the source text, the entry point and the
  target profile, and the device's two creation calls as functions of the bytecode
  pointer (the bytes behind it) and the size passed, each returning the status and the
  pointer written to the out-parameter.
\<close>

record native_backend =
  D3DCompile :: "string \<Rightarrow> string \<Rightarrow> string \<Rightarrow> D3DCompile_output"
  CreateVertexShader :: "byte list \<Rightarrow> nat \<Rightarrow> HRESULT \<times> IUnknown_ptr"
  CreatePixelShader :: "byte list \<Rightarrow> nat \<Rightarrow> HRESULT \<times> IUnknown_ptr"

text \<open>
  A native blob as the wrapper holds it: its bytes and whether it has been released.
  Reading the buffer of a released blob is the fatal outcome \<open>ReleasedBlobAccess\<close>.
\<close>

record ID3DBlob =
  buffer :: "byte list"
  released :: bool

definition acquired_blob :: "byte list \<Rightarrow> ID3DBlob" where
  "acquired_blob bs = \<lparr>buffer = bs, released = False\<rparr>"

definition GetBuffer :: "ID3DBlob \<Rightarrow> fatal + byte list" where
  "GetBuffer blob = (if released blob then Inl ReleasedBlobAccess else Inr (buffer blob))"

definition release_blob :: "ID3DBlob \<Rightarrow> ID3DBlob" where
  "release_blob blob = blob\<lparr>released := True\<rparr>"

text \<open>\<^verbatim>\<open>StringView::create_from_utf8\<close>: the bytes of the buffer read as characters.\<close>

definition create_from_utf8 :: "byte list \<Rightarrow> string" where
  "create_from_utf8 bs = map (\<lambda>b. char_of (unat b)) bs"

subsection \<open>Entry point and target profile\<close>

fun get_shader_entrypoint_name :: "ShaderStage \<Rightarrow> fatal + string" where
  "get_shader_entrypoint_name Vertex = Inr ''cave_vertex_main''"
| "get_shader_entrypoint_name Fragment = Inr ''cave_fragment_main''"
| "get_shader_entrypoint_name (StageOther v) = Inl AssertFailed"

fun get_shader_target :: "ShaderStage \<Rightarrow> fatal + string" where
  "get_shader_target Vertex = Inr ''vs_5_0''"
| "get_shader_target Fragment = Inr ''ps_5_0''"
| "get_shader_target (StageOther v) = Inl AssertFailed"

subsection \<open>The compiler wrapper\<close>

text \<open>
  \<^verbatim>\<open>compile_shader_module\<close>. The arguments of \<^verbatim>\<open>D3DCompile\<close> are evaluated first, so an
  unhandled stage fails in the two mappings before the compiler runs. Each blob that
  the compiler hands back is read and then released, in the order of the source. The
  function returns the compilation result together with the two blobs as it leaves
  them.
\<close>

text \<open>
  Modelled from the spec: the type of the field \<^verbatim>\<open>error_message\<close> of the compilation
  result is declared in a header that is not part of the sources at hand; the
  specification says that the diagnostic text is copied into caller-owned storage, so
  the assignment of the view to the field reads the blob's buffer at that point and
  stores the characters.
\<close>

definition compile_shader_module ::
  "native_backend \<Rightarrow> ShaderStage \<Rightarrow> string \<Rightarrow>
    fatal + (ShaderCompilationResult \<times> ID3DBlob option \<times> ID3DBlob option)" where
  "compile_shader_module backend stage_v source =
    (case get_shader_entrypoint_name stage_v of
       Inl e \<Rightarrow> Inl e
     | Inr entrypoint \<Rightarrow>
    (case get_shader_target stage_v of
       Inl e \<Rightarrow> Inl e
     | Inr target \<Rightarrow>
    (let out = D3DCompile backend source entrypoint target;
         bytecode_blob = map_option acquired_blob (ppCode out);
         error_message_blob = map_option acquired_blob (ppErrorMsgs out)
     in
    (case (case bytecode_blob of
             None \<Rightarrow> Inr ([], None)
           | Some blob \<Rightarrow>
               (case GetBuffer blob of
                  Inl e \<Rightarrow> Inl e
                | Inr bs \<Rightarrow> Inr (bs, Some (release_blob blob)))) of
       Inl e \<Rightarrow> Inl e
     | Inr (code, bytecode_blob') \<Rightarrow>
    (case (case error_message_blob of
             None \<Rightarrow> Inr ([], None)
           | Some blob \<Rightarrow>
               (case GetBuffer blob of
                  Inl e \<Rightarrow> Inl e
                | Inr bs \<Rightarrow> Inr (create_from_utf8 bs, Some (release_blob blob)))) of
       Inl e \<Rightarrow> Inl e
     | Inr (message, error_message_blob') \<Rightarrow>
         Inr (\<lparr>result = hresult out, bytecode = code, error_message = message\<rparr>,
              bytecode_blob', error_message_blob'))))))"

subsection \<open>Stage creation\<close>

text \<open>
  \<^verbatim>\<open>create_shader_module\<close>, in its two halves. \<open>obtain_bytecode\<close> is the chain on the
  origin (lines 135 to 166), which yields the bytecode pointer and size or ends in a
  contract failure; the checks come in the order of the source. The function itself
  then runs the switch on the stage (lines 168 to 189), which calls the device. The
  switch has no default case: for a stage that is neither \<^verbatim>\<open>Vertex\<close> nor \<^verbatim>\<open>Fragment\<close>
  the handle keeps the value \<^verbatim>\<open>nullptr\<close> of its initialisation. The release of the
  transient bytecode buffer at the end has no effect that the model observes.
\<close>

definition obtain_bytecode ::
  "native_backend \<Rightarrow> ShaderStageDescription \<Rightarrow> fatal + (byte list \<times> nat)" where
  "obtain_bytecode backend description =
    (if source_type description = SourceCode then
       (if source_code description = [] then Inl AssertFailed
        else
          (case compile_shader_module backend (stage description) (source_code description) of
             Inl e \<Rightarrow> Inl e
           | Inr (compilation_result, blobs) \<Rightarrow>
               if error_message compilation_result \<noteq> [] then Inl AssertFailed
               else if \<not> SUCCEEDED (result compilation_result) then Inl AssertFailed
               else Inr (bytecode compilation_result, length (bytecode compilation_result))))
     else if source_type description = Bytecode then
       (if \<not> 0 < source_bytecode_size description then Inl AssertFailed
        else Inr (source_bytecode_data description, source_bytecode_size description))
     else Inl VerifyFailed)"

definition create_shader_module ::
  "native_backend \<Rightarrow> ShaderStageDescription \<Rightarrow> fatal + ShaderModule" where
  "create_shader_module backend description =
    (case obtain_bytecode backend description of
       Inl e \<Rightarrow> Inl e
     | Inr (bytecode_data, bytecode_size) \<Rightarrow>
         (case stage description of
            Vertex \<Rightarrow>
              (case CreateVertexShader backend bytecode_data bytecode_size of
                 (vertex_shader_creation_result, vertex_shader) \<Rightarrow>
                   if \<not> SUCCEEDED vertex_shader_creation_result then Inl AssertFailed
                   else Inr \<lparr>module_stage = stage description, handle = vertex_shader\<rparr>)
          | Fragment \<Rightarrow>
              (case CreatePixelShader backend bytecode_data bytecode_size of
                 (fragment_shader_creation_result, fragment_shader) \<Rightarrow>
                   if \<not> SUCCEEDED fragment_shader_creation_result then Inl AssertFailed
                   else Inr \<lparr>module_stage = stage description, handle = fragment_shader\<rparr>)
          | StageOther v \<Rightarrow>
              Inr \<lparr>module_stage = stage description, handle = nullptr\<rparr>))"

subsection \<open>Constructor, lookup, destructor\<close>

text \<open>The inner loop of the constructor: is there a module of this stage already?\<close>

fun stage_already_exists :: "ShaderModule list \<Rightarrow> ShaderStage \<Rightarrow> bool" where
  "stage_already_exists [] s = False"
| "stage_already_exists (shader_module # rest) s =
    (if module_stage shader_module = s then True else stage_already_exists rest s)"

text \<open>
  The outer loop, over the stage descriptions still to be processed, with the modules
  stored so far. \<^verbatim>\<open>add\<close> appends at the end of the vector; reserving its capacity
  beforehand changes no content.
\<close>

fun add_stages ::
  "native_backend \<Rightarrow> ShaderStageDescription list \<Rightarrow> ShaderModule list \<Rightarrow>
    fatal + ShaderModule list" where
  "add_stages backend [] modules = Inr modules"
| "add_stages backend (stage_description # rest) modules =
    (if stage_already_exists modules (stage stage_description)
     then add_stages backend rest modules
     else
       (case create_shader_module backend stage_description of
          Inl e \<Rightarrow> Inl e
        | Inr shader_module \<Rightarrow> add_stages backend rest (modules @ [shader_module])))"

definition D3D11Shader_ctor :: "native_backend \<Rightarrow> ShaderDescription \<Rightarrow> fatal + D3D11Shader" where
  "D3D11Shader_ctor backend description =
    (case add_stages backend (stages description) [] of
       Inl e \<Rightarrow> Inl e
     | Inr modules \<Rightarrow> Inr \<lparr>m_shader_modules = modules\<rparr>)"

fun find_module :: "ShaderModule list \<Rightarrow> ShaderStage \<Rightarrow> IUnknown_ptr" where
  "find_module [] s = nullptr"
| "find_module (shader_module # rest) s =
    (if module_stage shader_module = s then handle shader_module else find_module rest s)"

definition get_shader_module :: "D3D11Shader \<Rightarrow> ShaderStage \<Rightarrow> IUnknown_ptr" where
  "get_shader_module shader s = find_module (m_shader_modules shader) s"

text \<open>
  The destructor hands every stored handle to \<^verbatim>\<open>CAVE_D3D11_RELEASE\<close>, in order, and
  then clears the vector.
\<close>

text \<open>
  Modelled from the spec: the macro \<^verbatim>\<open>CAVE_D3D11_RELEASE\<close> is defined outside the
  sources at hand; the specification describes it as the release primitive of a native
  handle. The model returns the handles passed to it, one entry per invocation in the
  order of the loop, together with the object as the destructor leaves it.
\<close>

fun release_handles :: "ShaderModule list \<Rightarrow> IUnknown_ptr list \<Rightarrow> IUnknown_ptr list" where
  "release_handles [] log = log"
| "release_handles (shader_module # rest) log =
    release_handles rest (log @ [handle shader_module])"

definition D3D11Shader_dtor :: "D3D11Shader \<Rightarrow> IUnknown_ptr list \<times> D3D11Shader" where
  "D3D11Shader_dtor shader =
    (release_handles (m_shader_modules shader) [], shader\<lparr>m_shader_modules := []\<rparr>)"

subsection \<open>Notions of the specification\<close>

text \<open>
  The descriptions that are first of their kind in input order: description \<open>i\<close> is
  kept when no description before it has the same stage.
\<close>

definition first_of_each_kind ::
  "ShaderStageDescription list \<Rightarrow> ShaderStageDescription list" where
  "first_of_each_kind ds =
    map (\<lambda>i. ds ! i)
      (filter (\<lambda>i. stage (ds ! i) \<notin> set (map stage (take i ds))) [0..<length ds])"

text \<open>
  One module per description, created in order; the first fatal failure ends the
  sequence.
\<close>

fun create_all ::
  "native_backend \<Rightarrow> ShaderStageDescription list \<Rightarrow> fatal + ShaderModule list" where
  "create_all backend [] = Inr []"
| "create_all backend (d # ds) =
    (case create_shader_module backend d of
       Inl e \<Rightarrow> Inl e
     | Inr m \<Rightarrow>
         (case create_all backend ds of
            Inl e \<Rightarrow> Inl e
          | Inr ms \<Rightarrow> Inr (m # ms)))"

text \<open>
  A malformed description: no source text for a source-code origin, a zero-length
  payload for a bytecode origin, or an origin that is neither of the two.
\<close>

definition malformed :: "ShaderStageDescription \<Rightarrow> bool" where
  "malformed d \<longleftrightarrow>
     (source_type d = SourceCode \<and> source_code d = [])
     \<or> (source_type d = Bytecode \<and> source_bytecode_size d = 0)
     \<or> (source_type d \<noteq> SourceCode \<and> source_type d \<noteq> Bytecode)"

subsection \<open>Concrete inputs\<close>

text \<open>
  Stage descriptions as a caller writes them, and a few backends: one whose compiler
  always succeeds without diagnostics, one that succeeds with a warning and one that
  fails silently. Their devices always succeed; the handle tells the call and the size.
\<close>

definition from_source :: "ShaderStage \<Rightarrow> string \<Rightarrow> ShaderStageDescription" where
  "from_source s text =
    \<lparr>stage = s, source_type = SourceCode, source_code = text,
     source_bytecode_data = [], source_bytecode_size = 0\<rparr>"

definition from_bytecode :: "ShaderStage \<Rightarrow> byte list \<Rightarrow> ShaderStageDescription" where
  "from_bytecode s bs =
    \<lparr>stage = s, source_type = Bytecode, source_code = [],
     source_bytecode_data = bs, source_bytecode_size = length bs\<rparr>"

definition example_backend :: native_backend where
  "example_backend =
    \<lparr>D3DCompile = (\<lambda>source entrypoint target.
        \<lparr>hresult = S_OK, ppCode = Some (replicate (length source) 0), ppErrorMsgs = None\<rparr>),
     CreateVertexShader = (\<lambda>data size. (S_OK, 100 + size)),
     CreatePixelShader = (\<lambda>data size. (S_OK, 200 + size))\<rparr>"

definition warning_backend :: native_backend where
  "warning_backend =
    \<lparr>D3DCompile = (\<lambda>source entrypoint target.
        \<lparr>hresult = S_OK, ppCode = Some [1], ppErrorMsgs = Some [0x77]\<rparr>),
     CreateVertexShader = (\<lambda>data size. (S_OK, 100 + size)),
     CreatePixelShader = (\<lambda>data size. (S_OK, 200 + size))\<rparr>"

definition failing_backend :: native_backend where
  "failing_backend =
    \<lparr>D3DCompile = (\<lambda>source entrypoint target.
        \<lparr>hresult = E_FAIL, ppCode = None, ppErrorMsgs = None\<rparr>),
     CreateVertexShader = (\<lambda>data size. (S_OK, 100 + size)),
     CreatePixelShader = (\<lambda>data size. (S_OK, 200 + size))\<rparr>"

definition duplicate_description :: ShaderDescription where
  "duplicate_description =
    \<lparr>stages =
      [from_source Vertex ''a'', from_source Vertex ''bb'', from_source Fragment ''ccc'']\<rparr>"

definition malformed_duplicate_description :: ShaderDescription where
  "malformed_duplicate_description =
    \<lparr>stages = [from_bytecode Vertex [0], from_source Vertex []]\<rparr>"

definition unhandled_stage_description :: ShaderDescription where
  "unhandled_stage_description = \<lparr>stages = [from_bytecode (StageOther 2) [0]]\<rparr>"

section \<open>Properties\<close>

subsection \<open>Auxiliary facts\<close>

lemmas run_defs =
  D3D11Shader_ctor_def create_shader_module_def obtain_bytecode_def compile_shader_module_def
  acquired_blob_def GetBuffer_def release_blob_def SUCCEEDED_def S_OK_def E_FAIL_def
  create_from_utf8_def from_source_def from_bytecode_def get_shader_module_def

lemma first_of_each_kind_Nil: "first_of_each_kind [] = []"
  by (simp add: first_of_each_kind_def)

lemma first_of_each_kind_snoc:
  "first_of_each_kind (ds @ [d]) =
     first_of_each_kind ds @ (if stage d \<in> stage ` set ds then [] else [d])"
proof -
  let ?keep = "\<lambda>i. stage (ds ! i) \<notin> set (map stage (take i ds))"
  have "filter (\<lambda>i. stage ((ds @ [d]) ! i) \<notin> set (map stage (take i (ds @ [d]))))
          [0..<length ds]
        = filter ?keep [0..<length ds]"
    by (rule filter_cong) (auto simp: nth_append)
  moreover have "map (\<lambda>i. (ds @ [d]) ! i) (filter ?keep [0..<length ds])
        = map (\<lambda>i. ds ! i) (filter ?keep [0..<length ds])"
    by (rule map_cong) (auto simp: nth_append)
  ultimately show ?thesis
    by (simp add: first_of_each_kind_def)
qed

lemma set_first_of_each_kind_stage:
  "stage ` set (first_of_each_kind ds) = stage ` set ds"
  by (induction ds rule: rev_induct) (auto simp: first_of_each_kind_Nil first_of_each_kind_snoc)

lemma distinct_first_of_each_kind:
  "distinct (map stage (first_of_each_kind ds))"
proof (induction ds rule: rev_induct)
  case Nil
  show ?case by (simp add: first_of_each_kind_Nil)
next
  case (snoc d ds)
  then show ?case
    using set_first_of_each_kind_stage [of ds]
    by (auto simp: first_of_each_kind_snoc)
qed

lemma length_first_of_each_kind:
  "length (first_of_each_kind ds) = card (stage ` set ds)"
proof -
  have "length (first_of_each_kind ds) = length (map stage (first_of_each_kind ds))"
    by simp
  also have "\<dots> = card (set (map stage (first_of_each_kind ds)))"
    by (rule distinct_card [symmetric]) (rule distinct_first_of_each_kind)
  also have "\<dots> = card (stage ` set ds)"
    by (simp add: set_first_of_each_kind_stage)
  finally show ?thesis .
qed

lemma first_of_each_kind_distinct_id:
  "distinct (map stage ds) \<Longrightarrow> first_of_each_kind ds = ds"
  by (induction ds rule: rev_induct) (auto simp: first_of_each_kind_Nil first_of_each_kind_snoc)

lemma first_of_each_kind_idem:
  "first_of_each_kind (first_of_each_kind ds) = first_of_each_kind ds"
  by (rule first_of_each_kind_distinct_id) (rule distinct_first_of_each_kind)

lemma stage_already_exists_iff:
  "stage_already_exists ms s \<longleftrightarrow> s \<in> module_stage ` set ms"
  by (induction ms) auto

lemma create_shader_module_stage:
  "create_shader_module backend d = Inr m \<Longrightarrow> module_stage m = stage d"
  by (auto simp: create_shader_module_def
      split: sum.splits prod.splits ShaderStage.splits if_splits)

lemma add_stages_snoc:
  "add_stages backend (ds @ [d]) ms0 =
    (case add_stages backend ds ms0 of
       Inl e \<Rightarrow> Inl e
     | Inr ms \<Rightarrow>
         if stage_already_exists ms (stage d) then Inr ms
         else (case create_shader_module backend d of
                 Inl e \<Rightarrow> Inl e
               | Inr m \<Rightarrow> Inr (ms @ [m])))"
  by (induction ds arbitrary: ms0) (auto split: sum.splits)

lemma create_all_snoc:
  "create_all backend (ds @ [d]) =
    (case create_all backend ds of
       Inl e \<Rightarrow> Inl e
     | Inr ms \<Rightarrow>
         (case create_shader_module backend d of
            Inl e \<Rightarrow> Inl e
          | Inr m \<Rightarrow> Inr (ms @ [m])))"
  by (induction ds) (auto split: sum.splits)

lemma create_all_stages:
  "create_all backend ds = Inr ms \<Longrightarrow> map module_stage ms = map stage ds"
  by (induction ds arbitrary: ms) (auto split: sum.splits dest: create_shader_module_stage)

lemma create_all_list_all2:
  "create_all backend ds = Inr ms \<Longrightarrow>
     list_all2 (\<lambda>d m. create_shader_module backend d = Inr m) ds ms"
  by (induction ds arbitrary: ms) (auto split: sum.splits)

lemma create_all_Inl:
  "(\<exists>e. create_all backend ds = Inl e) \<longleftrightarrow>
     (\<exists>d \<in> set ds. \<exists>e. create_shader_module backend d = Inl e)"
  by (induction ds) (auto split: sum.splits)

text \<open>
  The loop of the constructor creates the descriptions that are first of their kind,
  in order, and nothing else.
\<close>

lemma add_stages_first_of_each_kind:
  "add_stages backend ds [] = create_all backend (first_of_each_kind ds)"
proof (induction ds rule: rev_induct)
  case Nil
  show ?case by (simp add: first_of_each_kind_Nil)
next
  case (snoc d ds)
  show ?case
  proof (cases "create_all backend (first_of_each_kind ds)")
    case (Inl e)
    then show ?thesis
      using snoc by (simp add: add_stages_snoc first_of_each_kind_snoc create_all_snoc)
  next
    case (Inr ms)
    have "module_stage ` set ms = stage ` set ds"
      using create_all_stages [OF Inr] set_first_of_each_kind_stage [of ds]
      by (metis list.set_map)
    then show ?thesis
      using snoc Inr
      by (simp add: add_stages_snoc first_of_each_kind_snoc create_all_snoc
          stage_already_exists_iff)
  qed
qed

lemma ctor_eq:
  "D3D11Shader_ctor backend description =
    (case create_all backend (first_of_each_kind (stages description)) of
       Inl e \<Rightarrow> Inl e
     | Inr modules \<Rightarrow> Inr \<lparr>m_shader_modules = modules\<rparr>)"
  by (simp add: D3D11Shader_ctor_def add_stages_first_of_each_kind)

lemma ctor_aborts_on_first_of_kind:
  assumes "d \<in> set (first_of_each_kind (stages description))"
    and "create_shader_module backend d = Inl e"
  shows "\<exists>e'. D3D11Shader_ctor backend description = Inl e'"
proof -
  from assms have "\<exists>e'. create_all backend (first_of_each_kind (stages description)) = Inl e'"
    unfolding create_all_Inl by blast
  then show ?thesis
    by (auto simp: ctor_eq)
qed

text \<open>A description of a stage that an earlier description has is as good as absent.\<close>

lemma first_of_each_kind_skip:
  "stage d \<in> stage ` set ds \<Longrightarrow>
     first_of_each_kind (ds @ d # rest) = first_of_each_kind (ds @ rest)"
proof (induction rest rule: rev_induct)
  case Nil
  then show ?case
    using first_of_each_kind_snoc [of ds d] by simp
next
  case (snoc x rest)
  have "first_of_each_kind ((ds @ d # rest) @ [x]) =
      first_of_each_kind (ds @ d # rest)
        @ (if stage x \<in> stage ` set (ds @ d # rest) then [] else [x])"
    by (rule first_of_each_kind_snoc)
  moreover have "first_of_each_kind ((ds @ rest) @ [x]) =
      first_of_each_kind (ds @ rest)
        @ (if stage x \<in> stage ` set (ds @ rest) then [] else [x])"
    by (rule first_of_each_kind_snoc)
  moreover have "stage ` set (ds @ d # rest) = stage ` set (ds @ rest)"
    using snoc.prems by auto
  moreover have "first_of_each_kind (ds @ d # rest) = first_of_each_kind (ds @ rest)"
    using snoc by blast
  ultimately have "first_of_each_kind ((ds @ d # rest) @ [x])
      = first_of_each_kind ((ds @ rest) @ [x])"
    by (simp only:)
  then show ?case by simp
qed

lemma ctor_skips_duplicate:
  "stage d \<in> stage ` set ds \<Longrightarrow>
     D3D11Shader_ctor backend \<lparr>stages = ds @ d # rest\<rparr>
       = D3D11Shader_ctor backend \<lparr>stages = ds @ rest\<rparr>"
  by (simp add: ctor_eq first_of_each_kind_skip)

lemma release_handles_eq: "release_handles ms log = log @ map handle ms"
  by (induction ms arbitrary: log) auto

lemma find_module_absent: "s \<notin> module_stage ` set ms \<Longrightarrow> find_module ms s = nullptr"
  by (induction ms) auto

lemma find_module_present:
  "distinct (map module_stage ms) \<Longrightarrow> m \<in> set ms \<Longrightarrow>
     find_module ms (module_stage m) = handle m"
  by (induction ms) (auto simp: image_iff)

lemma compile_unhandled_stage:
  "compile_shader_module backend (StageOther v) source = Inl AssertFailed"
  by (simp add: compile_shader_module_def)

lemma create_unhandled_stage:
  "stage d = StageOther v \<Longrightarrow>
     create_shader_module backend d =
      (case obtain_bytecode backend d of
         Inl e \<Rightarrow> Inl e
       | Inr p \<Rightarrow> Inr \<lparr>module_stage = stage d, handle = nullptr\<rparr>)"
  by (simp add: create_shader_module_def split: sum.splits)

lemma example_ctor:
  "D3D11Shader_ctor example_backend duplicate_description =
     Inr \<lparr>m_shader_modules =
       [\<lparr>module_stage = Vertex, handle = 101\<rparr>, \<lparr>module_stage = Fragment, handle = 203\<rparr>]\<rparr>"
  by (simp add: run_defs duplicate_description_def example_backend_def)

subsection \<open>Construction\<close>

text \<open>
  C1. The constructor builds its modules from exactly the descriptions that are first
  of their kind, in input order: it creates one module from each of them and none from
  a later description of a kind already present, so the later descriptions have no
  effect on the outcome at all. When construction completes, the program holds as many
  modules as there are distinct kinds among the descriptions, no two modules share a
  kind, and module \<open>i\<close> is what stage creation returns for the \<open>i\<close>-th first-of-its-kind
  description.
\<close>

theorem ctor_one_module_per_kind:
  "D3D11Shader_ctor backend description =
     (case create_all backend (first_of_each_kind (stages description)) of
        Inl e \<Rightarrow> Inl e
      | Inr modules \<Rightarrow> Inr \<lparr>m_shader_modules = modules\<rparr>)
   \<and> D3D11Shader_ctor backend description =
       D3D11Shader_ctor backend
         (description\<lparr>stages := first_of_each_kind (stages description)\<rparr>)
   \<and> (\<forall>shader. D3D11Shader_ctor backend description = Inr shader \<longrightarrow>
         length (m_shader_modules shader) = card (stage ` set (stages description))
         \<and> length (m_shader_modules shader) \<le> length (stages description)
         \<and> distinct (map module_stage (m_shader_modules shader))
         \<and> map module_stage (m_shader_modules shader)
             = map stage (first_of_each_kind (stages description))
         \<and> list_all2 (\<lambda>d m. create_shader_module backend d = Inr m)
             (first_of_each_kind (stages description)) (m_shader_modules shader))"
proof -
  let ?firsts = "first_of_each_kind (stages description)"
  have eq: "D3D11Shader_ctor backend description =
     (case create_all backend ?firsts of
        Inl e \<Rightarrow> Inl e
      | Inr modules \<Rightarrow> Inr \<lparr>m_shader_modules = modules\<rparr>)"
    by (rule ctor_eq)
  have skip: "D3D11Shader_ctor backend description =
       D3D11Shader_ctor backend (description\<lparr>stages := ?firsts\<rparr>)"
    by (simp add: ctor_eq first_of_each_kind_idem)
  have built: "length (m_shader_modules shader) = card (stage ` set (stages description))
         \<and> length (m_shader_modules shader) \<le> length (stages description)
         \<and> distinct (map module_stage (m_shader_modules shader))
         \<and> map module_stage (m_shader_modules shader) = map stage ?firsts
         \<and> list_all2 (\<lambda>d m. create_shader_module backend d = Inr m)
             ?firsts (m_shader_modules shader)"
    if ok: "D3D11Shader_ctor backend description = Inr shader" for shader
  proof -
    from ok eq have all: "create_all backend ?firsts = Inr (m_shader_modules shader)"
      by (auto split: sum.splits)
    have kinds: "map module_stage (m_shader_modules shader) = map stage ?firsts"
      by (rule create_all_stages [OF all])
    have "length (m_shader_modules shader) = length ?firsts"
      using kinds by (metis length_map)
    then have count: "length (m_shader_modules shader) = card (stage ` set (stages description))"
      by (simp add: length_first_of_each_kind)
    have "card (stage ` set (stages description)) \<le> card (set (stages description))"
      by (rule card_image_le) simp
    also have "\<dots> \<le> length (stages description)"
      by (rule card_length)
    finally have "length (m_shader_modules shader) \<le> length (stages description)"
      using count by simp
    moreover note count
    moreover have "distinct (map module_stage (m_shader_modules shader))"
      by (simp add: kinds distinct_first_of_each_kind)
    moreover note kinds create_all_list_all2 [OF all]
    ultimately show ?thesis by simp
  qed
  from eq skip built show ?thesis by blast
qed

text \<open>
  The duplicate handling example of the specification: two vertex descriptions and a
  fragment description give two modules, the vertex module from the first source.
\<close>

theorem ctor_one_module_per_kind_witness:
  "D3D11Shader_ctor example_backend duplicate_description =
     Inr \<lparr>m_shader_modules =
       [\<lparr>module_stage = Vertex, handle = 101\<rparr>, \<lparr>module_stage = Fragment, handle = 203\<rparr>]\<rparr>
   \<and> card (stage ` set (stages duplicate_description)) = 2
   \<and> list_all2 (\<lambda>d m. create_shader_module example_backend d = Inr m)
        (first_of_each_kind (stages duplicate_description))
        [\<lparr>module_stage = Vertex, handle = 101\<rparr>, \<lparr>module_stage = Fragment, handle = 203\<rparr>]"
  using ctor_one_module_per_kind [of example_backend duplicate_description]
  by (simp add: example_ctor)

subsection \<open>Lookup\<close>

text \<open>
  What the lookup does on a constructed program: it returns \<^verbatim>\<open>nullptr\<close> for a stage
  without a module and the stored handle of the module of a stage that has one.
\<close>

lemma lookup_absent:
  "s \<notin> module_stage ` set (m_shader_modules shader) \<Longrightarrow> get_shader_module shader s = nullptr"
  by (simp add: get_shader_module_def find_module_absent)

lemma lookup_present:
  assumes "D3D11Shader_ctor backend description = Inr shader"
    and "m \<in> set (m_shader_modules shader)"
  shows "get_shader_module shader (module_stage m) = handle m"
proof -
  from assms(1) have "create_all backend (first_of_each_kind (stages description))
      = Inr (m_shader_modules shader)"
    by (auto simp: ctor_eq split: sum.splits)
  then have "map module_stage (m_shader_modules shader)
      = map stage (first_of_each_kind (stages description))"
    by (rule create_all_stages)
  then have "distinct (map module_stage (m_shader_modules shader))"
    by (simp add: distinct_first_of_each_kind)
  with assms(2) show ?thesis
    by (simp add: get_shader_module_def find_module_present)
qed

text \<open>
  C2. The claim that the lookup returns a non-null handle for every stage that has a
  stored module does not hold on the code. A description with a bytecode origin and a
  stage value that is neither \<open>Vertex\<close> nor \<open>Fragment\<close> passes every check, the switch
  of stage creation matches no case, and the module is stored with the handle
  \<^verbatim>\<open>nullptr\<close>; the lookup of that stage returns \<^verbatim>\<open>nullptr\<close> although a module of the
  stage is stored. The two mappings of the compiler wrapper end in an assertion failure
  for such a stage; the switch of stage creation has no such branch.
\<close>

theorem lookup_null_for_stored_unhandled_stage:
  "D3D11Shader_ctor example_backend unhandled_stage_description =
     Inr \<lparr>m_shader_modules = [\<lparr>module_stage = StageOther 2, handle = nullptr\<rparr>]\<rparr>
   \<and> get_shader_module
        \<lparr>m_shader_modules = [\<lparr>module_stage = StageOther 2, handle = nullptr\<rparr>]\<rparr>
        (StageOther 2)
      = nullptr"
  by (simp add: run_defs unhandled_stage_description_def example_backend_def)

subsection \<open>Destruction\<close>

text \<open>
  C3. The destructor passes the handle of every stored module to the release primitive
  once, in order, so a handle is released as many times as there are modules that hold
  it, and then leaves the storage empty. Running it again on the object it leaves
  releases nothing and changes nothing.
\<close>

theorem dtor_releases_each_handle_once:
  "fst (D3D11Shader_dtor shader) = map handle (m_shader_modules shader)
   \<and> (\<forall>h. count_list (fst (D3D11Shader_dtor shader)) h
          = length (filter (\<lambda>m. handle m = h) (m_shader_modules shader)))
   \<and> m_shader_modules (snd (D3D11Shader_dtor shader)) = []
   \<and> fst (D3D11Shader_dtor (snd (D3D11Shader_dtor shader))) = []
   \<and> snd (D3D11Shader_dtor (snd (D3D11Shader_dtor shader))) = snd (D3D11Shader_dtor shader)"
proof -
  have "count_list (map handle ms) h = length (filter (\<lambda>m. handle m = h) ms)"
    for ms :: "ShaderModule list" and h
    by (induction ms) auto
  then show ?thesis
    by (simp add: D3D11Shader_dtor_def release_handles_eq)
qed

subsection \<open>The compiler wrapper\<close>

text \<open>
  C4 as stated does not hold: a compiler that succeeds and hands back a warning makes
  stage creation, and with it the construction of the program, end in the assertion
  failure. No module is created.
\<close>

theorem warning_is_fatal_counterexample:
  "compile_shader_module warning_backend Vertex ''a'' =
     Inr (\<lparr>result = S_OK, bytecode = [1], error_message = create_from_utf8 [0x77]\<rparr>,
          Some \<lparr>buffer = [1], released = True\<rparr>, Some \<lparr>buffer = [0x77], released = True\<rparr>)
   \<and> SUCCEEDED S_OK
   \<and> create_from_utf8 [0x77] \<noteq> []
   \<and> create_shader_module warning_backend (from_source Vertex ''a'') = Inl AssertFailed
   \<and> D3D11Shader_ctor warning_backend \<lparr>stages = [from_source Vertex ''a'']\<rparr>
       = Inl AssertFailed"
  by (simp add: run_defs warning_backend_def)

text \<open>
  C4, amended. For a stage with a source-code origin, any non-empty diagnostic text in
  the compilation result is fatal, whatever the status, and so is a failing status: stage
  creation ends in the assertion failure, construction aborts when the constructor
  reaches the description (it is the first of its kind), and no constructed program has
  a module from it. A module is created only from a compilation with empty diagnostic
  text and a succeeding status.
\<close>

theorem diagnostic_text_or_failure_is_fatal:
  assumes "source_type d = SourceCode"
    and "compile_shader_module backend (stage d) (source_code d) = Inr (r, blobs)"
  shows "(error_message r \<noteq> [] \<or> \<not> SUCCEEDED (result r)
            \<longrightarrow> create_shader_module backend d = Inl AssertFailed
                \<and> (d \<in> set (first_of_each_kind (stages description))
                     \<longrightarrow> (\<exists>e. D3D11Shader_ctor backend description = Inl e))
                \<and> (\<forall>shader. D3D11Shader_ctor backend description = Inr shader
                     \<longrightarrow> d \<notin> set (first_of_each_kind (stages description))))
         \<and> (\<forall>m. create_shader_module backend d = Inr m
            \<longrightarrow> error_message r = [] \<and> SUCCEEDED (result r))"
proof -
  have fatal: "create_shader_module backend d = Inl AssertFailed"
    if "error_message r \<noteq> [] \<or> \<not> SUCCEEDED (result r)"
    using that assms
    by (auto simp: create_shader_module_def obtain_bytecode_def split: if_splits sum.splits)
  have aborts: "\<exists>e. D3D11Shader_ctor backend description = Inl e"
    if "error_message r \<noteq> [] \<or> \<not> SUCCEEDED (result r)"
      and "d \<in> set (first_of_each_kind (stages description))"
    using that(2) fatal [OF that(1)] by (rule ctor_aborts_on_first_of_kind)
  have hidden: "d \<notin> set (first_of_each_kind (stages description))"
    if "error_message r \<noteq> [] \<or> \<not> SUCCEEDED (result r)"
      and "D3D11Shader_ctor backend description = Inr shader" for shader
    using aborts [OF that(1)] that(2) by auto
  have only: "error_message r = [] \<and> SUCCEEDED (result r)"
    if "create_shader_module backend d = Inr m" for m
    using fatal that by auto
  from fatal aborts hidden only show ?thesis by blast
qed

theorem diagnostic_text_or_failure_is_fatal_witness:
  "source_type (from_source Vertex ''a'') = SourceCode
   \<and> compile_shader_module warning_backend Vertex ''a'' =
     Inr (\<lparr>result = S_OK, bytecode = [1], error_message = create_from_utf8 [0x77]\<rparr>,
          Some \<lparr>buffer = [1], released = True\<rparr>, Some \<lparr>buffer = [0x77], released = True\<rparr>)
   \<and> create_from_utf8 [0x77] \<noteq> []
   \<and> SUCCEEDED S_OK
   \<and> from_source Vertex ''a''
       \<in> set (first_of_each_kind (stages \<lparr>stages = [from_source Vertex ''a'']\<rparr>))
   \<and> create_shader_module warning_backend (from_source Vertex ''a'') = Inl AssertFailed
   \<and> (\<exists>e. D3D11Shader_ctor warning_backend \<lparr>stages = [from_source Vertex ''a'']\<rparr> = Inl e)"
proof -
  let ?d = "from_source Vertex ''a''"
  let ?r = "\<lparr>result = S_OK, bytecode = [1], error_message = create_from_utf8 [0x77]\<rparr>"
  have c: "compile_shader_module warning_backend (stage ?d) (source_code ?d) =
     Inr (?r, Some \<lparr>buffer = [1], released = True\<rparr>, Some \<lparr>buffer = [0x77], released = True\<rparr>)"
    by (simp add: run_defs warning_backend_def)
  have s: "source_type ?d = SourceCode"
    by (simp add: from_source_def)
  have w: "error_message ?r \<noteq> [] \<or> \<not> SUCCEEDED (result ?r)"
    by (simp add: create_from_utf8_def)
  have f: "?d \<in> set (first_of_each_kind (stages \<lparr>stages = [?d]\<rparr>))"
    by (simp add: first_of_each_kind_def)
  have ok: "SUCCEEDED S_OK"
    by (simp add: SUCCEEDED_def S_OK_def)
  from diagnostic_text_or_failure_is_fatal [OF s c, of "\<lparr>stages = [?d]\<rparr>"]
  have "error_message ?r \<noteq> [] \<or> \<not> SUCCEEDED (result ?r)
        \<longrightarrow> create_shader_module warning_backend ?d = Inl AssertFailed
            \<and> (?d \<in> set (first_of_each_kind (stages \<lparr>stages = [?d]\<rparr>))
                 \<longrightarrow> (\<exists>e. D3D11Shader_ctor warning_backend \<lparr>stages = [?d]\<rparr> = Inl e))
            \<and> (\<forall>shader. D3D11Shader_ctor warning_backend \<lparr>stages = [?d]\<rparr> = Inr shader
                     \<longrightarrow> ?d \<notin> set (first_of_each_kind (stages \<lparr>stages = [?d]\<rparr>)))"
    by (rule conjunct1)
  with w f have "create_shader_module warning_backend ?d = Inl AssertFailed
      \<and> (\<exists>e. D3D11Shader_ctor warning_backend \<lparr>stages = [?d]\<rparr> = Inl e)"
    by blast
  moreover have "compile_shader_module warning_backend Vertex ''a'' =
     Inr (?r, Some \<lparr>buffer = [1], released = True\<rparr>, Some \<lparr>buffer = [0x77], released = True\<rparr>)"
    using c by (simp add: from_source_def)
  moreover have "create_from_utf8 [0x77] \<noteq> []"
    by (simp add: create_from_utf8_def)
  ultimately show ?thesis
    using s f ok by blast
qed



subsection \<open>Stage creation\<close>

text \<open>
  C7 as stated does not hold: the constructor skips a description whose stage already
  has a module before any of its fields is checked. A vertex stage with no source text
  that follows a well-formed vertex stage is malformed, and construction completes with
  the one module of the first description.
\<close>

theorem malformed_duplicate_is_skipped_counterexample:
  "malformed (from_source Vertex [])
   \<and> stages malformed_duplicate_description = [from_bytecode Vertex [0], from_source Vertex []]
   \<and> D3D11Shader_ctor example_backend malformed_duplicate_description =
       Inr \<lparr>m_shader_modules = [\<lparr>module_stage = Vertex, handle = 101\<rparr>]\<rparr>"
  by (simp add: run_defs malformed_def malformed_duplicate_description_def example_backend_def)

text \<open>
  C7, amended. Stage creation from a malformed description ends in a fatal contract
  failure and returns no module, so none with a null handle: the assertion failure for
  an empty source text or a zero-length payload, the verification failure for an origin
  that is neither source code nor bytecode. When the description is the first of its
  kind in the program description, so that the constructor reaches it, construction
  aborts. When it repeats the kind of an earlier description, the constructor skips it
  and the outcome of construction is the one without it.
\<close>

theorem malformed_description_aborts:
  assumes "malformed d"
  shows "create_shader_module backend d =
           Inl (if source_type d = SourceCode \<or> source_type d = Bytecode
                then AssertFailed else VerifyFailed)
         \<and> (\<forall>m. create_shader_module backend d \<noteq> Inr m)
         \<and> (d \<in> set (first_of_each_kind (stages description))
              \<longrightarrow> (\<exists>e. D3D11Shader_ctor backend description = Inl e))
         \<and> (\<forall>ds rest. stage d \<in> stage ` set ds
              \<longrightarrow> D3D11Shader_ctor backend \<lparr>stages = ds @ d # rest\<rparr>
                    = D3D11Shader_ctor backend \<lparr>stages = ds @ rest\<rparr>)"
proof -
  have c: "create_shader_module backend d =
           Inl (if source_type d = SourceCode \<or> source_type d = Bytecode
                then AssertFailed else VerifyFailed)"
    using assms by (auto simp: malformed_def create_shader_module_def obtain_bytecode_def)
  then have n: "\<forall>m. create_shader_module backend d \<noteq> Inr m"
    by simp
  have a: "\<exists>e. D3D11Shader_ctor backend description = Inl e"
    if "d \<in> set (first_of_each_kind (stages description))"
    using that c by (rule ctor_aborts_on_first_of_kind)
  have s: "D3D11Shader_ctor backend \<lparr>stages = ds @ d # rest\<rparr>
             = D3D11Shader_ctor backend \<lparr>stages = ds @ rest\<rparr>"
    if "stage d \<in> stage ` set ds" for ds rest
    using that by (rule ctor_skips_duplicate)
  from c n a s show ?thesis by blast
qed

text \<open>
  The empty-payload example of the specification, a vertex stage with no source, alone
  and after a well-formed vertex stage.
\<close>

theorem malformed_description_aborts_witness:
  "malformed (from_source Vertex [])
   \<and> create_shader_module example_backend (from_source Vertex []) = Inl AssertFailed
   \<and> from_source Vertex []
       \<in> set (first_of_each_kind (stages \<lparr>stages = [from_source Vertex []]\<rparr>))
   \<and> (\<exists>e. D3D11Shader_ctor example_backend \<lparr>stages = [from_source Vertex []]\<rparr> = Inl e)
   \<and> stage (from_source Vertex []) \<in> stage ` set [from_bytecode Vertex [0]]
   \<and> D3D11Shader_ctor example_backend
        \<lparr>stages = [from_bytecode Vertex [0]] @ from_source Vertex [] # []\<rparr>
      = D3D11Shader_ctor example_backend \<lparr>stages = [from_bytecode Vertex [0]] @ []\<rparr>"
proof -
  let ?d = "from_source Vertex []"
  have m: "malformed ?d"
    by (simp add: malformed_def from_source_def)
  have f: "?d \<in> set (first_of_each_kind (stages \<lparr>stages = [?d]\<rparr>))"
    by (simp add: first_of_each_kind_def)
  have k: "stage ?d \<in> stage ` set [from_bytecode Vertex [0]]"
    by (simp add: from_source_def from_bytecode_def)
  note t = malformed_description_aborts [OF m, of example_backend "\<lparr>stages = [?d]\<rparr>"]
  from t have c: "create_shader_module example_backend ?d =
           Inl (if source_type ?d = SourceCode \<or> source_type ?d = Bytecode
                then AssertFailed else VerifyFailed)"
    by (rule conjunct1)
  then have c': "create_shader_module example_backend ?d = Inl AssertFailed"
    by (simp add: from_source_def)
  from t have "?d \<in> set (first_of_each_kind (stages \<lparr>stages = [?d]\<rparr>))
              \<longrightarrow> (\<exists>e. D3D11Shader_ctor example_backend \<lparr>stages = [?d]\<rparr> = Inl e)"
    by (rule conjunct1 [OF conjunct2 [OF conjunct2]])
  with f have a: "\<exists>e. D3D11Shader_ctor example_backend \<lparr>stages = [?d]\<rparr> = Inl e"
    by blast
  from t have "\<forall>ds rest. stage ?d \<in> stage ` set ds
              \<longrightarrow> D3D11Shader_ctor example_backend \<lparr>stages = ds @ ?d # rest\<rparr>
                    = D3D11Shader_ctor example_backend \<lparr>stages = ds @ rest\<rparr>"
    by (rule conjunct2 [OF conjunct2 [OF conjunct2]])
  with k have s: "D3D11Shader_ctor example_backend
        \<lparr>stages = [from_bytecode Vertex [0]] @ ?d # []\<rparr>
      = D3D11Shader_ctor example_backend \<lparr>stages = [from_bytecode Vertex [0]] @ []\<rparr>"
    by blast
  from m c' f a k s show ?thesis by blast
qed

text \<open>
  C8. When the compilation of a source-code stage returns a failing status, stage
  creation ends in the assertion failure; the failure is not passed over. If the
  constructor reaches the description, construction aborts, so a program that was
  constructed has no module from that description.
\<close>

theorem failed_compilation_aborts_construction:
  assumes "source_type d = SourceCode"
    and "compile_shader_module backend (stage d) (source_code d) = Inr (r, blobs)"
    and "\<not> SUCCEEDED (result r)"
  shows "create_shader_module backend d = Inl AssertFailed
         \<and> (d \<in> set (first_of_each_kind (stages description))
              \<longrightarrow> (\<exists>e. D3D11Shader_ctor backend description = Inl e))
         \<and> (\<forall>shader. D3D11Shader_ctor backend description = Inr shader
              \<longrightarrow> d \<notin> set (first_of_each_kind (stages description)))"
proof -
  have c: "create_shader_module backend d = Inl AssertFailed"
    using assms by (auto simp: create_shader_module_def obtain_bytecode_def)
  have a: "\<exists>e. D3D11Shader_ctor backend description = Inl e"
    if "d \<in> set (first_of_each_kind (stages description))"
    using that c by (rule ctor_aborts_on_first_of_kind)
  then have "\<forall>shader. D3D11Shader_ctor backend description = Inr shader
              \<longrightarrow> d \<notin> set (first_of_each_kind (stages description))"
    by auto
  with c a show ?thesis by blast
qed

theorem failed_compilation_aborts_construction_witness:
  "source_type (from_source Vertex ''a'') = SourceCode
   \<and> compile_shader_module failing_backend Vertex ''a'' =
       Inr (\<lparr>result = E_FAIL, bytecode = [], error_message = []\<rparr>, None, None)
   \<and> \<not> SUCCEEDED E_FAIL
   \<and> create_shader_module failing_backend (from_source Vertex ''a'') = Inl AssertFailed
   \<and> from_source Vertex ''a''
       \<in> set (first_of_each_kind (stages \<lparr>stages = [from_source Vertex ''a'']\<rparr>))
   \<and> (\<exists>e. D3D11Shader_ctor failing_backend \<lparr>stages = [from_source Vertex ''a'']\<rparr> = Inl e)"
proof -
  have s: "source_type (from_source Vertex ''a'') = SourceCode"
    by (simp add: from_source_def)
  have c: "compile_shader_module failing_backend (stage (from_source Vertex ''a''))
             (source_code (from_source Vertex ''a'')) =
       Inr (\<lparr>result = E_FAIL, bytecode = [], error_message = []\<rparr>, None, None)"
    by (simp add: run_defs failing_backend_def)
  have n: "\<not> SUCCEEDED (result \<lparr>result = E_FAIL, bytecode = [], error_message = []\<rparr>)"
    by (simp add: SUCCEEDED_def E_FAIL_def)
  have f: "from_source Vertex ''a''
      \<in> set (first_of_each_kind (stages \<lparr>stages = [from_source Vertex ''a'']\<rparr>))"
    by (simp add: first_of_each_kind_def)
  from failed_compilation_aborts_construction
         [OF s c n, of "\<lparr>stages = [from_source Vertex ''a'']\<rparr>"] s c n f
  show ?thesis
    by (simp add: from_source_def)
qed

text \<open>
  C10. For a stage that is neither \<open>Vertex\<close> nor \<open>Fragment\<close>, the switch of stage
  creation matches no case and raises no contract failure: whenever stage creation
  returns a module, the module carries the requested stage and the handle \<^verbatim>\<open>nullptr\<close>.
  It does return one for every bytecode origin with a payload size above zero. With a
  source-code origin the switch is not reached, since the assertions before it fail.
\<close>

theorem unhandled_stage_gets_null_handle:
  assumes "stage d \<noteq> Vertex" and "stage d \<noteq> Fragment"
  shows "(\<forall>m. create_shader_module backend d = Inr m
            \<longrightarrow> m = \<lparr>module_stage = stage d, handle = nullptr\<rparr>)
         \<and> (source_type d = Bytecode \<and> 0 < source_bytecode_size d
            \<longrightarrow> create_shader_module backend d
                  = Inr \<lparr>module_stage = stage d, handle = nullptr\<rparr>)
         \<and> (source_type d = SourceCode
            \<longrightarrow> create_shader_module backend d = Inl AssertFailed)"
proof -
  obtain v where v: "stage d = StageOther v"
    using assms by (cases "stage d") auto
  note unhandled = create_unhandled_stage [OF v, of backend]
  have "\<forall>m. create_shader_module backend d = Inr m
            \<longrightarrow> m = \<lparr>module_stage = stage d, handle = nullptr\<rparr>"
    unfolding unhandled by (auto split: sum.splits)
  moreover have "source_type d = Bytecode \<and> 0 < source_bytecode_size d
            \<longrightarrow> create_shader_module backend d
                  = Inr \<lparr>module_stage = stage d, handle = nullptr\<rparr>"
    unfolding unhandled by (simp add: obtain_bytecode_def)
  moreover have "source_type d = SourceCode
            \<longrightarrow> create_shader_module backend d = Inl AssertFailed"
    unfolding unhandled by (simp add: obtain_bytecode_def v compile_unhandled_stage)
  ultimately show ?thesis by blast
qed

theorem unhandled_stage_gets_null_handle_witness:
  "stage (from_bytecode (StageOther 2) [0]) \<noteq> Vertex
   \<and> stage (from_bytecode (StageOther 2) [0]) \<noteq> Fragment
   \<and> source_type (from_bytecode (StageOther 2) [0]) = Bytecode
   \<and> 0 < source_bytecode_size (from_bytecode (StageOther 2) [0])
   \<and> create_shader_module example_backend (from_bytecode (StageOther 2) [0])
       = Inr \<lparr>module_stage = StageOther 2, handle = nullptr\<rparr>"
proof -
  have a: "stage (from_bytecode (StageOther 2) [0]) \<noteq> Vertex"
    and b: "stage (from_bytecode (StageOther 2) [0]) \<noteq> Fragment"
    by (simp_all add: from_bytecode_def)
  have t: "source_type (from_bytecode (StageOther 2) [0]) = Bytecode"
    and z: "0 < source_bytecode_size (from_bytecode (StageOther 2) [0])"
    and s: "stage (from_bytecode (StageOther 2) [0]) = StageOther 2"
    by (simp_all add: from_bytecode_def)
  from unhandled_stage_gets_null_handle [OF a b, of example_backend]
  have "source_type (from_bytecode (StageOther 2) [0]) = Bytecode
          \<and> 0 < source_bytecode_size (from_bytecode (StageOther 2) [0])
        \<longrightarrow> create_shader_module example_backend (from_bytecode (StageOther 2) [0])
          = Inr \<lparr>module_stage = stage (from_bytecode (StageOther 2) [0]), handle = nullptr\<rparr>"
    by (rule conjunct1 [OF conjunct2])
  with t z have "create_shader_module example_backend (from_bytecode (StageOther 2) [0])
          = Inr \<lparr>module_stage = stage (from_bytecode (StageOther 2) [0]), handle = nullptr\<rparr>"
    by blast
  with a b t z s show ?thesis by simp
qed

subsection \<open>Entry point and target profile\<close>

text \<open>
  C9. The entry-point name and the target profile depend on the stage kind alone: each
  is a fixed string for \<open>Vertex\<close> and for \<open>Fragment\<close>, and for every other stage value
  both functions end in the assertion failure instead of returning a string.
\<close>

theorem entrypoint_and_target_closed_mapping:
  "get_shader_entrypoint_name Vertex = Inr ''cave_vertex_main''
   \<and> get_shader_entrypoint_name Fragment = Inr ''cave_fragment_main''
   \<and> get_shader_target Vertex = Inr ''vs_5_0''
   \<and> get_shader_target Fragment = Inr ''ps_5_0''
   \<and> (\<forall>s. (\<exists>name. get_shader_entrypoint_name s = Inr name) = (s = Vertex \<or> s = Fragment))
   \<and> (\<forall>s. (\<exists>target. get_shader_target s = Inr target) = (s = Vertex \<or> s = Fragment))
   \<and> (\<forall>s. (get_shader_entrypoint_name s = Inl AssertFailed) = (s \<noteq> Vertex \<and> s \<noteq> Fragment))
   \<and> (\<forall>s. (get_shader_target s = Inl AssertFailed) = (s \<noteq> Vertex \<and> s \<noteq> Fragment))"
proof -
  have "\<And>s. (\<exists>name. get_shader_entrypoint_name s = Inr name) = (s = Vertex \<or> s = Fragment)"
    subgoal for s by (cases s) simp_all
    done
  moreover have "\<And>s. (\<exists>target. get_shader_target s = Inr target) = (s = Vertex \<or> s = Fragment)"
    subgoal for s by (cases s) simp_all
    done
  moreover have "\<And>s. (get_shader_entrypoint_name s = Inl AssertFailed) = (s \<noteq> Vertex \<and> s \<noteq> Fragment)"
    subgoal for s by (cases s) simp_all
    done
  moreover have "\<And>s. (get_shader_target s = Inl AssertFailed) = (s \<noteq> Vertex \<and> s \<noteq> Fragment)"
    subgoal for s by (cases s) simp_all
    done
  ultimately show ?thesis by simp
qed

end
